theory Spec2Isabelle
  imports Main "HOL-Library.Word"
begin

section \<open>JavaScript strings\<close>

text \<open>
  A JavaScript string is a sequence of UTF-16 code units. The literals of the source are
  ASCII; \<open>js\<close> turns an ASCII literal into its code units.
\<close>

type_synonym jschar = "16 word"
type_synonym jsstring = "jschar list"

definition js :: "string \<Rightarrow> jsstring" where
  "js s = map of_char s"

text \<open>
  The code units that \<open>String.prototype.trim\<close> strips: ECMAScript's WhiteSpace
  (TAB, VT, FF, SP, NBSP, ZWNBSP and the other space separators) and LineTerminator
  (LF, CR, LS, PS). All of them are single code units.
\<close>

definition isWhiteSpace :: "jschar \<Rightarrow> bool" where
  "isWhiteSpace c \<longleftrightarrow>
     c = 0x0009 \<or> c = 0x000A \<or> c = 0x000B \<or> c = 0x000C \<or> c = 0x000D \<or>
     c = 0x0020 \<or> c = 0x00A0 \<or> c = 0x1680 \<or> (0x2000 \<le> c \<and> c \<le> 0x200A) \<or>
     c = 0x2028 \<or> c = 0x2029 \<or> c = 0x202F \<or> c = 0x205F \<or> c = 0x3000 \<or>
     c = 0xFEFF"

definition trim :: "jsstring \<Rightarrow> jsstring" where
  "trim s = rev (dropWhile isWhiteSpace (rev (dropWhile isWhiteSpace s)))"

text \<open>
  Substitution of a possibly undefined string into a template literal:
  \<open>undefined\<close> is rendered as the text \<open>undefined\<close>.
\<close>

definition ToString :: "jsstring option \<Rightarrow> jsstring" where
  "ToString v = (case v of None \<Rightarrow> js ''undefined'' | Some s \<Rightarrow> s)"

section \<open>The generation service (services/gemini.ts)\<close>

subsection \<open>Data\<close>

datatype AspectRatio = R1_1 | R16_9 | R9_16 | R4_3 | R3_4

datatype ModelType = Gemini_2_5_flash_image | Gemini_3_1_flash_image_preview

text \<open>
  \<open>numImages\<close> is a JavaScript number; the service never reads it, so its values are
  kept as integers.
\<close>

record GenerationConfig =
  prompt :: jsstring
  aspectRatio :: AspectRatio
  model :: ModelType
  negativePrompt :: "jsstring option"
  numImages :: "int option"

text \<open>The process environment, as far as the service reads it.\<close>

record environment =
  GEMINI_API_KEY :: "jsstring option"

text \<open>The client object that \<open>getAI\<close> builds.\<close>

record GoogleGenAI =
  apiKey :: jsstring

datatype error =
    ApiKeyNotSet
  | EndpointError jsstring

text \<open>
  Parts, contents, candidates and responses of the client library. Every field is
  optional there; the source reads them through \<open>?.\<close> and truthiness tests.
\<close>

record Blob =
  mimeType :: "jsstring option"
  data :: "jsstring option"

record Part =
  part_text :: "jsstring option"
  inlineData :: "Blob option"

record Content =
  parts :: "Part list option"

record Candidate =
  content :: "Content option"

record GenerateContentResponse =
  candidates :: "Candidate list option"

text \<open>The argument of \<open>ai.models.generateContent\<close>.\<close>

record ImageConfig =
  imageConfig_aspectRatio :: AspectRatio

record GenerateContentConfig =
  imageConfig :: ImageConfig

record GenerateContentParameters =
  request_model :: ModelType
  request_contents :: Content
  request_config :: GenerateContentConfig

subsection \<open>getAI\<close>

text \<open>\<open>!apiKey\<close> holds for \<open>undefined\<close> and for the empty string.\<close>

definition getAI :: "environment \<Rightarrow> error + GoogleGenAI" where
  "getAI env =
     (case GEMINI_API_KEY env of
        None \<Rightarrow> Inl ApiKeyNotSet
      | Some k \<Rightarrow> if k = [] then Inl ApiKeyNotSet else Inr \<lparr>apiKey = k\<rparr>)"

subsection \<open>generateImage\<close>

text \<open>The object literal passed to \<open>generateContent\<close>.\<close>

definition request_of :: "GenerationConfig \<Rightarrow> GenerateContentParameters" where
  "request_of config =
     \<lparr>request_model = model config,
      request_contents = \<lparr>parts = Some [\<lparr>part_text = Some (prompt config), inlineData = None\<rparr>]\<rparr>,
      request_config = \<lparr>imageConfig = \<lparr>imageConfig_aspectRatio = aspectRatio config\<rparr>\<rparr>\<rparr>"

text \<open>The template literal \<open>data:${mimeType};base64,${data}\<close>.\<close>

definition data_uri :: "Blob \<Rightarrow> jsstring" where
  "data_uri b = js ''data:'' @ ToString (mimeType b) @ js '';base64,'' @ ToString (data b)"

text \<open>
  The loop over the parts: \<open>images\<close> is the array built so far, and \<open>push\<close> appends
  at its end.
\<close>

fun push_images :: "Part list \<Rightarrow> jsstring list \<Rightarrow> jsstring list" where
  "push_images [] images = images"
| "push_images (part # rest) images =
     (case inlineData part of
        None \<Rightarrow> push_images rest images
      | Some b \<Rightarrow> push_images rest (images @ [data_uri b]))"

text \<open>The optional chain \<open>response.candidates?.[0]?.content?.parts\<close>.\<close>

definition first_candidate_parts :: "GenerateContentResponse \<Rightarrow> Part list option" where
  "first_candidate_parts response =
     (case candidates response of
        None \<Rightarrow> None
      | Some [] \<Rightarrow> None
      | Some (c # _) \<Rightarrow>
          (case content c of
             None \<Rightarrow> None
           | Some ct \<Rightarrow> parts ct))"

text \<open>The part of \<open>generateImage\<close> after the \<open>await\<close>: an array (also an empty one) is truthy.\<close>

definition images_of :: "GenerateContentResponse \<Rightarrow> jsstring list" where
  "images_of response =
     (case first_candidate_parts response of
        None \<Rightarrow> []
      | Some ps \<Rightarrow> push_images ps [])"

text \<open>
  \<open>generateImage\<close> is asynchronous. Up to its \<open>await\<close> it runs with its caller:
  it builds the client, which throws without touching the network when the key is
  missing, and otherwise hands the request to the client; \<open>network\<close> is the list of requests
  handed over so far. What the call is waiting for is an \<open>inflight\<close> value.
\<close>

datatype inflight =
    Rejected error
  | Awaiting GoogleGenAI GenerateContentParameters

definition generateImage_call ::
  "environment \<Rightarrow> GenerationConfig \<Rightarrow> GenerateContentParameters list \<Rightarrow>
     inflight \<times> GenerateContentParameters list" where
  "generateImage_call env config network =
     (case getAI env of
        Inl e \<Rightarrow> (Rejected e, network)
      | Inr ai \<Rightarrow> (Awaiting ai (request_of config), network @ [request_of config]))"

text \<open>
  The endpoint answers with a response or fails; the service passes a failure on
  unchanged.
\<close>

definition generateImage_settle ::
  "inflight \<Rightarrow> error + GenerateContentResponse \<Rightarrow> error + jsstring list" where
  "generateImage_settle p reply =
     (case p of
        Rejected e \<Rightarrow> Inl e
      | Awaiting ai request \<Rightarrow>
          (case reply of
             Inl e \<Rightarrow> Inl e
           | Inr response \<Rightarrow> Inr (images_of response)))"

definition generateImage ::
  "environment \<Rightarrow> error + GenerateContentResponse \<Rightarrow> GenerationConfig \<Rightarrow>
     GenerateContentParameters list \<Rightarrow> (error + jsstring list) \<times> GenerateContentParameters list" where
  "generateImage env reply config network =
     (case generateImage_call env config network of
        (p, network') \<Rightarrow> (generateImage_settle p reply, network'))"

section \<open>The controller (App.tsx)\<close>

subsection \<open>Data\<close>

datatype Theme = Light | Dark

record GeneratedImage =
  id_image :: jsstring
  url :: jsstring
  prompt_image :: jsstring
  timestamp :: int

text \<open>
  The state variables of \<open>App\<close>. \<open>'f\<close> is the type of the browser's file objects,
  which the controller only stores.
\<close>

record 'f App_state =
  theme :: Theme
  prompt_state :: jsstring
  aspectRatio_state :: AspectRatio
  model_state :: ModelType
  isGenerating :: bool
  images :: "GeneratedImage list"
  uploadedFiles :: "'f list"

text \<open>
  What the controller does outside its own state: the requests handed to the client,
  the alerts shown, the lines written with \<open>console.error\<close>, and how many times
  \<open>Math.random\<close> and \<open>Date.now\<close> have been called.
\<close>

record world =
  network :: "GenerateContentParameters list"
  alerts :: "jsstring list"
  console_errors :: "(jsstring \<times> error) list"
  random_calls :: nat
  now_calls :: nat

text \<open>
  A suspended \<open>handleGenerate\<close>: the \<open>prompt\<close> of the render that created the
  handler, and what its \<open>await\<close> waits for.
\<close>

record suspended =
  closure_prompt :: jsstring
  awaited :: inflight

subsection \<open>handleGenerate\<close>

text \<open>
  \<open>results.map(url => ({id, url, prompt, timestamp}))\<close>. The callback runs once
  for each payload, and each run calls \<open>Math.random\<close> and \<open>Date.now\<close>: the
  \<open>k\<close>-th call of \<open>Math.random().toString(36).substr(2, 9)\<close> yields
  \<open>random_id k\<close>, the \<open>k\<close>-th call of \<open>Date.now()\<close> yields \<open>Date_now k\<close>.
\<close>

fun new_images ::
  "(nat \<Rightarrow> jsstring) \<Rightarrow> (nat \<Rightarrow> int) \<Rightarrow> jsstring \<Rightarrow> jsstring list \<Rightarrow> world \<Rightarrow>
     GeneratedImage list \<times> world" where
  "new_images random_id Date_now p [] w = ([], w)"
| "new_images random_id Date_now p (u # results) w =
     (let i = random_id (random_calls w);
          w1 = w\<lparr>random_calls := Suc (random_calls w)\<rparr>;
          t = Date_now (now_calls w1);
          w2 = w1\<lparr>now_calls := Suc (now_calls w1)\<rparr>
      in case new_images random_id Date_now p results w2 of
           (rest, w3) \<Rightarrow>
             (\<lparr>id_image = i, url = u, prompt_image = p, timestamp = t\<rparr> # rest, w3))"

text \<open>The object literal \<open>{prompt, aspectRatio, model}\<close> that the handler passes to the service.\<close>

definition config_of :: "'f App_state \<Rightarrow> GenerationConfig" where
  "config_of s =
     \<lparr>prompt = prompt_state s, aspectRatio = aspectRatio_state s, model = model_state s,
      negativePrompt = None, numImages = None\<rparr>"

text \<open>
  The handler up to its \<open>await\<close>: the guard on the prompt, \<open>setIsGenerating(true)\<close>
  and the call of the service with the prompt, aspect ratio and model of the state.
\<close>

definition handleGenerate_call ::
  "environment \<Rightarrow> 'f App_state \<Rightarrow> world \<Rightarrow> 'f App_state \<times> world \<times> suspended option" where
  "handleGenerate_call env s w =
     (if trim (prompt_state s) = [] then (s, w, None)
      else
        (case generateImage_call env (config_of s) (network w) of
           (p, network') \<Rightarrow>
             (s\<lparr>isGenerating := True\<rparr>, w\<lparr>network := network'\<rparr>,
              Some \<lparr>closure_prompt = prompt_state s, awaited = p\<rparr>)))"

text \<open>
  The \<open>try\<close> and \<open>catch\<close> blocks after the \<open>await\<close>. \<open>setImages\<close> is given a
  function of the previous list, so it works on the state at that moment.
\<close>

definition handleGenerate_try_catch ::
  "(nat \<Rightarrow> jsstring) \<Rightarrow> (nat \<Rightarrow> int) \<Rightarrow> suspended \<Rightarrow> error + GenerateContentResponse \<Rightarrow>
     'f App_state \<Rightarrow> world \<Rightarrow> 'f App_state \<times> world" where
  "handleGenerate_try_catch random_id Date_now k reply s w =
     (case generateImage_settle (awaited k) reply of
        Inr results \<Rightarrow>
          (case new_images random_id Date_now (closure_prompt k) results w of
             (newImages, w') \<Rightarrow> (s\<lparr>images := newImages @ images s\<rparr>, w'))
      | Inl e \<Rightarrow>
          (s, w\<lparr>console_errors := console_errors w @ [(js ''Generation failed:'', e)],
                alerts := alerts w @
                  [js ''Failed to generate image. Please check your API key.'']\<rparr>))"

text \<open>The handler after its \<open>await\<close>; the \<open>finally\<close> block runs last.\<close>

definition handleGenerate_resume ::
  "(nat \<Rightarrow> jsstring) \<Rightarrow> (nat \<Rightarrow> int) \<Rightarrow> suspended \<Rightarrow> error + GenerateContentResponse \<Rightarrow>
     'f App_state \<Rightarrow> world \<Rightarrow> 'f App_state \<times> world" where
  "handleGenerate_resume random_id Date_now k reply s w =
     (case handleGenerate_try_catch random_id Date_now k reply s w of
        (s', w') \<Rightarrow> (s'\<lparr>isGenerating := False\<rparr>, w'))"

text \<open>A whole submission, with nothing else running between its two halves.\<close>

definition handleGenerate ::
  "environment \<Rightarrow> (nat \<Rightarrow> jsstring) \<Rightarrow> (nat \<Rightarrow> int) \<Rightarrow> error + GenerateContentResponse \<Rightarrow>
     'f App_state \<Rightarrow> world \<Rightarrow> 'f App_state \<times> world" where
  "handleGenerate env random_id Date_now reply s w =
     (case handleGenerate_call env s w of
        (s1, w1, None) \<Rightarrow> (s1, w1)
      | (s1, w1, Some k) \<Rightarrow> handleGenerate_resume random_id Date_now k reply s1 w1)"

text \<open>
  What is on the screen comes from a render, and a render reads the state once. Between
  two renders the state can move on while the rendered values stay: \<open>setIsGenerating(true)\<close>
  changes the state, and the handler and the button keep the \<open>prompt\<close>, \<open>aspectRatio\<close>,
  \<open>model\<close> and \<open>isGenerating\<close> of the render that made them. When a render follows a
  change of the state is left open: the rendered values \<open>r\<close> and the state \<open>s\<close> are
  separate arguments.

  \<open>handleGenerate_call\<close> above is the handler of a render that is up to date with the
  state. \<open>handleGenerate_call_rendered env r s w\<close> is the handler made by the render of
  \<open>r\<close>, run when the state is \<open>s\<close>: it reads \<open>r\<close> and changes \<open>s\<close>.
\<close>

definition handleGenerate_call_rendered ::
  "environment \<Rightarrow> 'f App_state \<Rightarrow> 'f App_state \<Rightarrow> world \<Rightarrow>
     'f App_state \<times> world \<times> suspended option" where
  "handleGenerate_call_rendered env r s w =
     (if trim (prompt_state r) = [] then (s, w, None)
      else
        (case generateImage_call env (config_of r) (network w) of
           (p, network') \<Rightarrow>
             (s\<lparr>isGenerating := True\<rparr>, w\<lparr>network := network'\<rparr>,
              Some \<lparr>closure_prompt = prompt_state r, awaited = p\<rparr>)))"

text \<open>
  The submit button of the render of \<open>r\<close>: it is rendered with
  \<open>disabled={isGenerating || !prompt.trim()}\<close> and \<open>onClick={handleGenerate}\<close>; a
  disabled button does not call its handler.
\<close>

definition generate_button_click ::
  "environment \<Rightarrow> 'f App_state \<Rightarrow> 'f App_state \<Rightarrow> world \<Rightarrow>
     'f App_state \<times> world \<times> suspended option" where
  "generate_button_click env r s w =
     (if isGenerating r \<or> trim (prompt_state r) = [] then (s, w, None)
      else handleGenerate_call_rendered env r s w)"

subsection \<open>handleFileUpload\<close>

text \<open>\<open>e.target.files\<close> is a list of files or \<open>null\<close>.\<close>

definition handleFileUpload :: "'f list option \<Rightarrow> 'f App_state \<Rightarrow> 'f App_state" where
  "handleFileUpload files s =
     (case files of
        None \<Rightarrow> s
      | Some fs \<Rightarrow> s\<lparr>uploadedFiles := take 5 (uploadedFiles s @ fs)\<rparr>)"

section \<open>Notions of the specification\<close>

text \<open>A prompt that is empty or consists of white space only.\<close>

definition blank :: "jsstring \<Rightarrow> bool" where
  "blank s \<longleftrightarrow> list_all isWhiteSpace s"

text \<open>The inline-data payloads of the first candidate's parts, in their order.\<close>

definition inline_blobs :: "GenerateContentResponse \<Rightarrow> Blob list" where
  "inline_blobs response =
     (case first_candidate_parts response of
        None \<Rightarrow> []
      | Some ps \<Rightarrow> List.map_filter inlineData ps)"

text \<open>The parts of the first candidate; none when the chain is undefined.\<close>

definition first_parts :: "GenerateContentResponse \<Rightarrow> Part list" where
  "first_parts response =
     (case first_candidate_parts response of
        None \<Rightarrow> []
      | Some ps \<Rightarrow> ps)"

text \<open>The most recent \<open>n\<close> entries of a list: its last \<open>n\<close>.\<close>

definition most_recent :: "nat \<Rightarrow> 'a list \<Rightarrow> 'a list" where
  "most_recent n xs = drop (length xs - n) xs"

section \<open>Concrete inputs\<close>

text \<open>
  The example of the specification: the prompt \<open>a red bicycle\<close>, aspect ratio 16:9,
  the model gemini-2.5-flash-image, and a response with a text part and two
  inline-data parts.
\<close>

definition example_env :: environment where
  "example_env = \<lparr>GEMINI_API_KEY = Some (js ''secret'')\<rparr>"

definition example_config :: GenerationConfig where
  "example_config =
     \<lparr>prompt = js ''a red bicycle'', aspectRatio = R16_9, model = Gemini_2_5_flash_image,
      negativePrompt = None, numImages = None\<rparr>"

definition example_response :: GenerateContentResponse where
  "example_response =
     \<lparr>candidates = Some
        [\<lparr>content = Some \<lparr>parts = Some
           [\<lparr>part_text = Some (js ''Here you are''), inlineData = None\<rparr>,
            \<lparr>part_text = None,
             inlineData = Some \<lparr>mimeType = Some (js ''image/png''), data = Some (js ''AAAA'')\<rparr>\<rparr>,
            \<lparr>part_text = None,
             inlineData = Some \<lparr>mimeType = Some (js ''image/jpeg''), data = Some (js ''BBBB'')\<rparr>\<rparr>]\<rparr>\<rparr>]\<rparr>"

definition example_state :: "'f App_state" where
  "example_state =
     \<lparr>theme = Dark, prompt_state = js ''a red bicycle'', aspectRatio_state = R16_9,
      model_state = Gemini_2_5_flash_image, isGenerating = False, images = [],
      uploadedFiles = []\<rparr>"

definition example_world :: world where
  "example_world =
     \<lparr>network = [], alerts = [], console_errors = [], random_calls = 0, now_calls = 0\<rparr>"

text \<open>An entry that is in the history before the submission.\<close>

definition example_old_image :: GeneratedImage where
  "example_old_image =
     \<lparr>id_image = js ''p0o9i8u7y'', url = js ''data:image/png;base64,CCCC'',
      prompt_image = js ''a green boat'', timestamp = 1600000000000\<rparr>"

text \<open>A clock that advances by one millisecond from one reading to the next.\<close>

definition ticking_clock :: "nat \<Rightarrow> int" where
  "ticking_clock k = 1700000000000 + int k"

definition example_random_id :: "nat \<Rightarrow> jsstring" where
  "example_random_id k = js ''k3x9q2m7'' @ [of_nat (97 + k)]"

section \<open>The service: what it returns\<close>

lemma push_images_eq:
  "push_images ps acc = acc @ map data_uri (List.map_filter inlineData ps)"
  by (induction ps arbitrary: acc) (simp_all split: option.split)

lemma images_of_eq: "images_of response = map data_uri (inline_blobs response)"
  by (simp add: images_of_def inline_blobs_def push_images_eq split: option.split)

lemma length_map_filter_inline:
  "length (List.map_filter inlineData ps) = length (filter (\<lambda>p. inlineData p \<noteq> None) ps)"
  by (induction ps) (simp_all split: option.split)

lemma data_uri_present:
  "mimeType b = Some m \<Longrightarrow> data b = Some d \<Longrightarrow>
     data_uri b = js ''data:'' @ m @ js '';base64,'' @ d"
  by (simp add: data_uri_def ToString_def)

text \<open>The call succeeds exactly when the key is set and the endpoint answers.\<close>

lemma generateImage_Inr_iff:
  "fst (generateImage env reply config net) = Inr imgs \<longleftrightarrow>
     (\<exists>ai response. getAI env = Inr ai \<and> reply = Inr response \<and> imgs = images_of response)"
  by (auto simp: generateImage_def generateImage_call_def generateImage_settle_def
           split: sum.splits)

text \<open>
  Claim C1. A successful call of \<open>generateImage\<close> returns one string for each part of
  the response's first candidate that carries inline data, in the order of the parts:
  the result is the list of \<open>data_uri\<close> of those parts' blobs, its length is the number
  of parts with inline data, and an item whose blob has MIME type \<open>m\<close> and payload \<open>d\<close>
  is \<open>data:m;base64,d\<close>. Parts without inline data leave no trace, and a response
  without inline-data parts gives the empty list, not an error.
\<close>

theorem generateImage_inline_images:
  "(fst (generateImage env reply config net) = Inr imgs \<longrightarrow>
      (\<exists>response. reply = Inr response \<and>
         imgs = map data_uri (inline_blobs response) \<and>
         length imgs = length (filter (\<lambda>p. inlineData p \<noteq> None) (first_parts response)) \<and>
         (\<forall>i m d. i < length imgs \<and> mimeType (inline_blobs response ! i) = Some m \<and>
              data (inline_blobs response ! i) = Some d \<longrightarrow>
            imgs ! i = js ''data:'' @ m @ js '';base64,'' @ d))) \<and>
   (getAI env = Inr ai \<and> inline_blobs response' = [] \<longrightarrow>
      fst (generateImage env (Inr response') config net) = Inr [])"
proof (intro conjI impI)
  assume "fst (generateImage env reply config net) = Inr imgs"
  then obtain response where r: "reply = Inr response" and i: "imgs = images_of response"
    by (auto simp: generateImage_Inr_iff)
  have a: "imgs = map data_uri (inline_blobs response)"
    using i by (simp add: images_of_eq)
  have b: "length imgs = length (filter (\<lambda>p. inlineData p \<noteq> None) (first_parts response))"
    using a
    by (simp add: inline_blobs_def first_parts_def length_map_filter_inline split: option.split)
  have c: "\<forall>i m d. i < length imgs \<and> mimeType (inline_blobs response ! i) = Some m \<and>
              data (inline_blobs response ! i) = Some d \<longrightarrow>
            imgs ! i = js ''data:'' @ m @ js '';base64,'' @ d"
    using a by (simp add: data_uri_present)
  from r a b c show "\<exists>response. reply = Inr response \<and>
         imgs = map data_uri (inline_blobs response) \<and>
         length imgs = length (filter (\<lambda>p. inlineData p \<noteq> None) (first_parts response)) \<and>
         (\<forall>i m d. i < length imgs \<and> mimeType (inline_blobs response ! i) = Some m \<and>
              data (inline_blobs response ! i) = Some d \<longrightarrow>
            imgs ! i = js ''data:'' @ m @ js '';base64,'' @ d)"
    by blast
next
  assume "getAI env = Inr ai \<and> inline_blobs response' = []"
  then show "fst (generateImage env (Inr response') config net) = Inr []"
    by (simp add: generateImage_Inr_iff images_of_eq)
qed

lemma example_call:
  "fst (generateImage example_env (Inr example_response) config net) =
     Inr [js ''data:image/png;base64,AAAA'', js ''data:image/jpeg;base64,BBBB'']"
  by (simp add: generateImage_def generateImage_call_def generateImage_settle_def getAI_def
        example_env_def example_response_def images_of_def first_candidate_parts_def
        data_uri_def ToString_def js_def)

theorem generateImage_inline_images_witness:
  "fst (generateImage example_env (Inr example_response) example_config []) =
     Inr [js ''data:image/png;base64,AAAA'', js ''data:image/jpeg;base64,BBBB''] \<and>
   length (filter (\<lambda>p. inlineData p \<noteq> None) (first_parts example_response)) = 2 \<and>
   getAI example_env = Inr \<lparr>apiKey = js ''secret''\<rparr> \<and>
   inline_blobs \<lparr>candidates = None\<rparr> = [] \<and>
   fst (generateImage example_env (Inr \<lparr>candidates = None\<rparr>) example_config []) = Inr []"
proof -
  have k: "getAI example_env = Inr \<lparr>apiKey = js ''secret''\<rparr>"
    by (simp add: getAI_def example_env_def js_def)
  have e: "inline_blobs \<lparr>candidates = None\<rparr> = []"
    by (simp add: inline_blobs_def first_candidate_parts_def)
  note t = generateImage_inline_images
    [of example_env "Inr example_response" example_config "[]"
        "[js ''data:image/png;base64,AAAA'', js ''data:image/jpeg;base64,BBBB'']"
        "\<lparr>apiKey = js ''secret''\<rparr>" "\<lparr>candidates = None\<rparr>"]
  note c = example_call [of example_config "[]"]
  have n: "length (filter (\<lambda>p. inlineData p \<noteq> None) (first_parts example_response)) = 2"
    using t c by auto
  have z: "fst (generateImage example_env (Inr \<lparr>candidates = None\<rparr>) example_config []) = Inr []"
    using t k e by blast
  from c n k e z show ?thesis by blast
qed

text \<open>
  Claim C2. When the environment has no \<open>GEMINI_API_KEY\<close>, \<open>generateImage\<close> fails
  with the error of \<open>getAI\<close>, whatever the endpoint would answer, and the failure is
  decided in the part of the call that runs before the \<open>await\<close>: the list of requests
  handed to the client is unchanged.
\<close>

theorem generateImage_missing_key:
  "GEMINI_API_KEY env = None \<Longrightarrow>
     generateImage env reply config net = (Inl ApiKeyNotSet, net) \<and>
     generateImage_call env config net = (Rejected ApiKeyNotSet, net)"
  by (simp add: generateImage_def generateImage_call_def generateImage_settle_def getAI_def)

theorem generateImage_missing_key_witness:
  "GEMINI_API_KEY \<lparr>GEMINI_API_KEY = None\<rparr> = None \<and>
   generateImage \<lparr>GEMINI_API_KEY = None\<rparr> (Inr example_response) example_config [] =
     (Inl ApiKeyNotSet, []) \<and>
   generateImage_call \<lparr>GEMINI_API_KEY = None\<rparr> example_config [] =
     (Rejected ApiKeyNotSet, [])"
  using generateImage_missing_key
    [of "\<lparr>GEMINI_API_KEY = None\<rparr>" "Inr example_response" example_config "[]"]
  by simp

lemma request_of_cong:
  "prompt c1 = prompt c2 \<Longrightarrow> aspectRatio c1 = aspectRatio c2 \<Longrightarrow> model c1 = model c2 \<Longrightarrow>
     request_of c1 = request_of c2"
  by (simp add: request_of_def)

text \<open>
  Claim C10. Two configurations with the same prompt, aspect ratio and model give the
  same request, whatever their \<open>negativePrompt\<close> and \<open>numImages\<close> are, and the whole
  call, its result and the requests it issues, is the same for both. With the key set,
  the call hands exactly one request to the client, and that request holds the model of
  the configuration, one text part with its prompt, and an image configuration with its
  aspect ratio, and nothing of the two optional fields.
\<close>

theorem generateImage_ignores_optional_fields:
  assumes "prompt c1 = prompt c2" and "aspectRatio c1 = aspectRatio c2" and "model c1 = model c2"
  shows "request_of c1 = request_of c2 \<and>
     request_of c1 =
       \<lparr>request_model = model c1,
        request_contents = \<lparr>parts = Some [\<lparr>part_text = Some (prompt c1), inlineData = None\<rparr>]\<rparr>,
        request_config = \<lparr>imageConfig = \<lparr>imageConfig_aspectRatio = aspectRatio c1\<rparr>\<rparr>\<rparr> \<and>
     generateImage_call env c1 net = generateImage_call env c2 net \<and>
     generateImage env reply c1 net = generateImage env reply c2 net \<and>
     (getAI env = Inr ai \<longrightarrow>
        snd (generateImage env reply c1 net) =
          net @
          [\<lparr>request_model = model c1,
            request_contents =
              \<lparr>parts = Some [\<lparr>part_text = Some (prompt c1), inlineData = None\<rparr>]\<rparr>,
            request_config = \<lparr>imageConfig = \<lparr>imageConfig_aspectRatio = aspectRatio c1\<rparr>\<rparr>\<rparr>] \<and>
        snd (generateImage env reply c2 net) =
          net @
          [\<lparr>request_model = model c1,
            request_contents =
              \<lparr>parts = Some [\<lparr>part_text = Some (prompt c1), inlineData = None\<rparr>]\<rparr>,
            request_config = \<lparr>imageConfig = \<lparr>imageConfig_aspectRatio = aspectRatio c1\<rparr>\<rparr>\<rparr>] \<and>
        generateImage_call env c2 net =
          (Awaiting ai
            \<lparr>request_model = model c1,
             request_contents =
               \<lparr>parts = Some [\<lparr>part_text = Some (prompt c1), inlineData = None\<rparr>]\<rparr>,
             request_config = \<lparr>imageConfig = \<lparr>imageConfig_aspectRatio = aspectRatio c1\<rparr>\<rparr>\<rparr>,
           net @
           [\<lparr>request_model = model c1,
             request_contents =
               \<lparr>parts = Some [\<lparr>part_text = Some (prompt c1), inlineData = None\<rparr>]\<rparr>,
             request_config = \<lparr>imageConfig = \<lparr>imageConfig_aspectRatio = aspectRatio c1\<rparr>\<rparr>\<rparr>]))"
proof -
  have r: "request_of c1 = request_of c2"
    using assms by (rule request_of_cong)
  have a: "generateImage_call env c1 net = generateImage_call env c2 net"
    using r by (simp add: generateImage_call_def split: sum.split)
  have b: "generateImage env reply c1 net = generateImage env reply c2 net"
    using a by (simp add: generateImage_def)
  have c: "request_of c1 =
       \<lparr>request_model = model c1,
        request_contents = \<lparr>parts = Some [\<lparr>part_text = Some (prompt c1), inlineData = None\<rparr>]\<rparr>,
        request_config = \<lparr>imageConfig = \<lparr>imageConfig_aspectRatio = aspectRatio c1\<rparr>\<rparr>\<rparr>"
    by (simp add: request_of_def)
  have d: "generateImage_call env c2 net = (Awaiting ai (request_of c1), net @ [request_of c1])"
    if "getAI env = Inr ai"
    using that r by (simp add: generateImage_call_def)
  have e: "snd (generateImage env reply c2 net) = net @ [request_of c1]"
    if "getAI env = Inr ai"
    using d [OF that] by (simp add: generateImage_def)
  show ?thesis
    using r a b d e unfolding c by simp
qed

theorem generateImage_ignores_optional_fields_witness:
  "request_of example_config =
     request_of (example_config\<lparr>negativePrompt := Some (js ''blurry''), numImages := Some 4\<rparr>) \<and>
   generateImage example_env (Inr example_response) example_config [] =
     generateImage example_env (Inr example_response)
       (example_config\<lparr>negativePrompt := Some (js ''blurry''), numImages := Some 4\<rparr>) [] \<and>
   getAI example_env = Inr \<lparr>apiKey = js ''secret''\<rparr> \<and>
   snd (generateImage example_env (Inr example_response)
       (example_config\<lparr>negativePrompt := Some (js ''blurry''), numImages := Some 4\<rparr>) []) =
     [\<lparr>request_model = Gemini_2_5_flash_image,
       request_contents =
         \<lparr>parts = Some [\<lparr>part_text = Some (js ''a red bicycle''), inlineData = None\<rparr>]\<rparr>,
       request_config = \<lparr>imageConfig = \<lparr>imageConfig_aspectRatio = R16_9\<rparr>\<rparr>\<rparr>] \<and>
   snd (generateImage example_env (Inr example_response) example_config []) =
     [\<lparr>request_model = Gemini_2_5_flash_image,
       request_contents =
         \<lparr>parts = Some [\<lparr>part_text = Some (js ''a red bicycle''), inlineData = None\<rparr>]\<rparr>,
       request_config = \<lparr>imageConfig = \<lparr>imageConfig_aspectRatio = R16_9\<rparr>\<rparr>\<rparr>]"
proof -
  let ?c2 = "example_config\<lparr>negativePrompt := Some (js ''blurry''), numImages := Some 4\<rparr>"
  have k: "getAI example_env = Inr \<lparr>apiKey = js ''secret''\<rparr>"
    by (simp add: getAI_def example_env_def js_def)
  have p: "prompt example_config = prompt ?c2" "aspectRatio example_config = aspectRatio ?c2"
    "model example_config = model ?c2"
    by simp_all
  note t = generateImage_ignores_optional_fields
    [OF p, of example_env "[]" "Inr example_response" "\<lparr>apiKey = js ''secret''\<rparr>"]
  have f: "prompt example_config = js ''a red bicycle''" "model example_config = Gemini_2_5_flash_image"
    "aspectRatio example_config = R16_9"
    by (simp_all add: example_config_def)
  from t k show ?thesis
    unfolding f by simp
qed

section \<open>The controller\<close>

lemma list_all_dropWhile: "list_all P (dropWhile P s) = list_all P s"
  by (induction s) simp_all

lemma trim_empty_iff: "trim s = [] \<longleftrightarrow> blank s"
proof -
  have "trim s = [] \<longleftrightarrow> list_all isWhiteSpace (dropWhile isWhiteSpace s)"
    by (simp add: trim_def list_all_iff)
  then show ?thesis
    by (simp add: blank_def list_all_dropWhile)
qed

lemma new_images_world:
  "snd (new_images rnd now p rs w) =
     w\<lparr>random_calls := random_calls w + length rs, now_calls := now_calls w + length rs\<rparr>"
  by (induction rs arbitrary: w) (simp_all add: Let_def split_beta)

lemma new_images_url: "map url (fst (new_images rnd now p rs w)) = rs"
  by (induction rs arbitrary: w) (simp_all add: Let_def split_beta)

lemma new_images_length: "length (fst (new_images rnd now p rs w)) = length rs"
  by (induction rs arbitrary: w) (simp_all add: Let_def split_beta)

lemma new_images_prompt:
  "map prompt_image (fst (new_images rnd now p rs w)) = replicate (length rs) p"
  by (induction rs arbitrary: w) (simp_all add: Let_def split_beta)

lemma new_images_timestamp:
  "map timestamp (fst (new_images rnd now p rs w)) = map (\<lambda>i. now (now_calls w + i)) [0..<length rs]"
proof (induction rs arbitrary: w)
  case Nil
  show ?case by simp
next
  case (Cons u rs)
  have "[0..<Suc (length rs)] = 0 # map Suc [0..<length rs]"
    by (simp add: upt_conv_Cons map_Suc_upt del: upt_Suc)
  then show ?case
    using Cons.IH by (simp add: Let_def o_def split_beta del: upt_Suc)
qed

lemma resume_success:
  assumes "generateImage_settle (awaited k) reply = Inr results"
  shows "fst (handleGenerate_resume rnd now k reply s w) =
           s\<lparr>images := fst (new_images rnd now (closure_prompt k) results w) @ images s,
             isGenerating := False\<rparr>"
  using assms by (simp add: handleGenerate_resume_def handleGenerate_try_catch_def split: prod.split)

lemma resume_failure:
  assumes "generateImage_settle (awaited k) reply = Inl e"
  shows "handleGenerate_resume rnd now k reply s w =
           (s\<lparr>isGenerating := False\<rparr>,
            w\<lparr>console_errors := console_errors w @ [(js ''Generation failed:'', e)],
              alerts := alerts w @ [js ''Failed to generate image. Please check your API key.'']\<rparr>)"
  using assms by (simp add: handleGenerate_resume_def handleGenerate_try_catch_def)

lemma handleGenerate_nonblank:
  assumes "\<not> blank (prompt_state s)"
  shows "handleGenerate env rnd now reply s w =
     handleGenerate_resume rnd now
       \<lparr>closure_prompt = prompt_state s,
        awaited = fst (generateImage_call env (config_of s) (network w))\<rparr>
       reply (s\<lparr>isGenerating := True\<rparr>)
       (w\<lparr>network := snd (generateImage_call env (config_of s) (network w))\<rparr>)"
  using assms by (simp add: handleGenerate_def handleGenerate_call_def trim_empty_iff split: prod.split)

lemma settle_call:
  "generateImage_settle (fst (generateImage_call env config net)) reply =
     fst (generateImage env reply config net)"
  by (simp add: generateImage_def split_beta)

lemma example_prompt_not_blank: "\<not> blank (js ''a red bicycle'')"
  by (simp add: blank_def js_def isWhiteSpace_def)

lemma example_state_not_blank: "\<not> blank (prompt_state example_state)"
  by (simp add: example_state_def example_prompt_not_blank)

subsection \<open>The guard on the prompt\<close>

text \<open>
  Claim C6. When the prompt of the state is empty or consists of white space only,
  the handler returns at once: the state and the world come back unchanged (so no request
  is issued and \<open>isGenerating\<close> keeps its value), and nothing is left waiting.
\<close>

theorem handleGenerate_blank_prompt:
  assumes "blank (prompt_state s)"
  shows "handleGenerate_call env s w = (s, w, None) \<and>
         handleGenerate env random_id Date_now reply s w = (s, w)"
  using assms by (simp add: handleGenerate_def handleGenerate_call_def trim_empty_iff)

theorem handleGenerate_blank_prompt_witness:
  "blank (prompt_state ((example_state :: nat App_state)\<lparr>prompt_state := [0x20, 0x09, 0x3000, 0x0A]\<rparr>)) \<and>
   handleGenerate_call example_env
     ((example_state :: nat App_state)\<lparr>prompt_state := [0x20, 0x09, 0x3000, 0x0A]\<rparr>) example_world =
     (example_state\<lparr>prompt_state := [0x20, 0x09, 0x3000, 0x0A]\<rparr>, example_world, None) \<and>
   handleGenerate example_env example_random_id ticking_clock (Inr example_response)
     ((example_state :: nat App_state)\<lparr>prompt_state := [0x20, 0x09, 0x3000, 0x0A]\<rparr>) example_world =
     (example_state\<lparr>prompt_state := [0x20, 0x09, 0x3000, 0x0A]\<rparr>, example_world)"
proof -
  have b: "blank (prompt_state ((example_state :: nat App_state)\<lparr>prompt_state := [0x20, 0x09, 0x3000, 0x0A]\<rparr>))"
    by (simp add: blank_def isWhiteSpace_def)
  from b handleGenerate_blank_prompt [OF b] show ?thesis by simp
qed

subsection \<open>The in-flight flag\<close>

text \<open>
  Claim C3. When a submission completes, \<open>isGenerating\<close> is false, whether the service
  succeeded or failed and whatever happened to the state while the call was waiting;
  clearing the flag is the last change made to the state. For a whole submission (a
  prompt that is not blank) the flag is false at the end.
\<close>

theorem isGenerating_cleared:
  "\<not> isGenerating (fst (handleGenerate_resume random_id Date_now k reply s w)) \<and>
   fst (handleGenerate_resume random_id Date_now k reply s w) =
     (fst (handleGenerate_try_catch random_id Date_now k reply s w))\<lparr>isGenerating := False\<rparr> \<and>
   (\<not> blank (prompt_state s) \<longrightarrow>
      \<not> isGenerating (fst (handleGenerate env random_id Date_now reply s w)))"
proof -
  have a: "fst (handleGenerate_resume r n k' reply s' w') =
     (fst (handleGenerate_try_catch r n k' reply s' w'))\<lparr>isGenerating := False\<rparr>"
    for r n k' and s' :: "'a App_state" and w'
    by (simp add: handleGenerate_resume_def split_beta)
  have b: "\<not> isGenerating (fst (handleGenerate_resume r n k' reply s' w'))"
    for r n k' and s' :: "'a App_state" and w'
    by (simp add: a)
  show ?thesis
    using a b by (simp add: handleGenerate_nonblank)
qed

theorem isGenerating_cleared_witness:
  "\<not> blank (prompt_state (example_state :: nat App_state)) \<and>
   \<not> isGenerating (fst (handleGenerate example_env example_random_id ticking_clock
        (Inr example_response) (example_state :: nat App_state) example_world)) \<and>
   \<not> isGenerating (fst (handleGenerate example_env example_random_id ticking_clock
        (Inl (EndpointError (js ''503''))) (example_state :: nat App_state) example_world)) \<and>
   \<not> isGenerating (fst (handleGenerate \<lparr>GEMINI_API_KEY = None\<rparr> example_random_id ticking_clock
        (Inr example_response) (example_state :: nat App_state) example_world))"
  using example_state_not_blank
    isGenerating_cleared [where s = "example_state :: nat App_state"]
  by blast

subsection \<open>Success: the history\<close>

text \<open>
  Claim C4. After a successful submission that returned the payloads \<open>results\<close>, the
  history starts with one record for each payload, in the order of the payloads (their
  \<open>url\<close> fields are \<open>results\<close>), and the rest of the history is the prior list,
  unchanged and in its order. This holds for the handler resumed on any state, and for a
  whole submission.
\<close>

theorem history_prepend:
  "(generateImage_settle (awaited k) reply = Inr results \<longrightarrow>
      map url (take (length results) (images (fst (handleGenerate_resume random_id Date_now k reply s w)))) = results \<and>
      drop (length results) (images (fst (handleGenerate_resume random_id Date_now k reply s w))) = images s) \<and>
   (\<not> blank (prompt_state s) \<and>
    fst (generateImage env reply (config_of s) (network w)) = Inr results \<longrightarrow>
      map url (take (length results) (images (fst (handleGenerate env random_id Date_now reply s w)))) = results \<and>
      drop (length results) (images (fst (handleGenerate env random_id Date_now reply s w))) = images s)"
proof -
  have a: "map url (take (length results) (images (fst (handleGenerate_resume r n k' reply s' w')))) = results \<and>
      drop (length results) (images (fst (handleGenerate_resume r n k' reply s' w'))) = images s'"
    if "generateImage_settle (awaited k') reply = Inr results"
    for r n k' and s' :: "'a App_state" and w'
    using that by (simp add: resume_success new_images_length new_images_url)
  show ?thesis
  proof (intro conjI impI)
    assume "generateImage_settle (awaited k) reply = Inr results"
    then show "map url (take (length results) (images (fst (handleGenerate_resume random_id Date_now k reply s w)))) = results"
      and "drop (length results) (images (fst (handleGenerate_resume random_id Date_now k reply s w))) = images s"
      using a by blast+
  next
    assume h: "\<not> blank (prompt_state s) \<and>
      fst (generateImage env reply (config_of s) (network w)) = Inr results"
    then have "generateImage_settle (awaited \<lparr>closure_prompt = prompt_state s,
        awaited = fst (generateImage_call env (config_of s) (network w))\<rparr>) reply = Inr results"
      by (simp add: settle_call)
    from a [OF this] h
    show "map url (take (length results) (images (fst (handleGenerate env random_id Date_now reply s w)))) = results"
      and "drop (length results) (images (fst (handleGenerate env random_id Date_now reply s w))) = images s"
      by (simp_all add: handleGenerate_nonblank)
  qed
qed

theorem history_prepend_witness:
  "\<not> blank (prompt_state ((example_state :: nat App_state)\<lparr>images := [example_old_image]\<rparr>)) \<and>
   fst (generateImage example_env (Inr example_response)
     (config_of ((example_state :: nat App_state)\<lparr>images := [example_old_image]\<rparr>)) (network example_world)) =
     Inr [js ''data:image/png;base64,AAAA'', js ''data:image/jpeg;base64,BBBB''] \<and>
   map url (take 2 (images (fst (handleGenerate example_env example_random_id ticking_clock
     (Inr example_response) ((example_state :: nat App_state)\<lparr>images := [example_old_image]\<rparr>) example_world)))) =
     [js ''data:image/png;base64,AAAA'', js ''data:image/jpeg;base64,BBBB''] \<and>
   drop 2 (images (fst (handleGenerate example_env example_random_id ticking_clock
     (Inr example_response) ((example_state :: nat App_state)\<lparr>images := [example_old_image]\<rparr>) example_world))) =
     [example_old_image]"
proof -
  let ?s = "(example_state :: nat App_state)\<lparr>images := [example_old_image]\<rparr>"
  let ?R = "[js ''data:image/png;base64,AAAA'', js ''data:image/jpeg;base64,BBBB'']"
  let ?h = "images (fst (handleGenerate example_env example_random_id ticking_clock
     (Inr example_response) ?s example_world))"
  have b: "\<not> blank (prompt_state ?s)"
    using example_state_not_blank by simp
  have g: "fst (generateImage example_env (Inr example_response) (config_of ?s)
      (network example_world)) = Inr ?R"
    by (rule example_call)
  have l: "length ?R = 2"
    by simp
  have "map url (take (length ?R) ?h) = ?R \<and> drop (length ?R) ?h = images ?s"
    using b g history_prepend [where s = ?s and env = example_env
      and reply = "Inr example_response" and w = example_world and results = ?R
      and random_id = example_random_id and Date_now = ticking_clock]
    by blast
  then have "map url (take 2 ?h) = ?R \<and> drop 2 ?h = [example_old_image]"
    unfolding l by simp
  with b g show ?thesis
    by blast
qed

subsection \<open>Failure\<close>

text \<open>
  Claim C7. When the service call fails, the state is left as it was but for the cleared
  flag (so the history is unchanged), and exactly one alert is shown, with a fixed text
  that holds nothing of the error; the error itself only goes to the console.
\<close>

theorem failure_keeps_history:
  "(generateImage_settle (awaited k) reply = Inl e \<longrightarrow>
      handleGenerate_resume random_id Date_now k reply s w =
        (s\<lparr>isGenerating := False\<rparr>,
         w\<lparr>console_errors := console_errors w @ [(js ''Generation failed:'', e)],
           alerts := alerts w @ [js ''Failed to generate image. Please check your API key.'']\<rparr>)) \<and>
   (\<not> blank (prompt_state s) \<and>
    fst (generateImage env reply (config_of s) (network w)) = Inl e \<longrightarrow>
      images (fst (handleGenerate env random_id Date_now reply s w)) = images s \<and>
      fst (handleGenerate env random_id Date_now reply s w) = s\<lparr>isGenerating := False\<rparr> \<and>
      alerts (snd (handleGenerate env random_id Date_now reply s w)) =
        alerts w @ [js ''Failed to generate image. Please check your API key.''])"
proof (intro conjI impI)
  assume "generateImage_settle (awaited k) reply = Inl e"
  then show "handleGenerate_resume random_id Date_now k reply s w =
        (s\<lparr>isGenerating := False\<rparr>,
         w\<lparr>console_errors := console_errors w @ [(js ''Generation failed:'', e)],
           alerts := alerts w @ [js ''Failed to generate image. Please check your API key.'']\<rparr>)"
    by (rule resume_failure)
next
  assume h: "\<not> blank (prompt_state s) \<and>
    fst (generateImage env reply (config_of s) (network w)) = Inl e"
  let ?k = "\<lparr>closure_prompt = prompt_state s,
        awaited = fst (generateImage_call env (config_of s) (network w))\<rparr>"
  have f: "generateImage_settle (awaited ?k) reply = Inl e"
    using h by (simp add: settle_call)
  have r: "handleGenerate env random_id Date_now reply s w =
     handleGenerate_resume random_id Date_now ?k reply (s\<lparr>isGenerating := True\<rparr>)
       (w\<lparr>network := snd (generateImage_call env (config_of s) (network w))\<rparr>)"
    using h by (simp add: handleGenerate_nonblank)
  show "images (fst (handleGenerate env random_id Date_now reply s w)) = images s"
    unfolding r resume_failure [OF f] by simp
  show "fst (handleGenerate env random_id Date_now reply s w) = s\<lparr>isGenerating := False\<rparr>"
    unfolding r resume_failure [OF f] by simp
  show "alerts (snd (handleGenerate env random_id Date_now reply s w)) =
        alerts w @ [js ''Failed to generate image. Please check your API key.'']"
    unfolding r resume_failure [OF f] by simp
qed

lemma example_generateImage_fails:
  "fst (generateImage example_env (Inl (EndpointError (js ''503''))) (config_of s) net) =
     Inl (EndpointError (js ''503''))"
  by (simp add: generateImage_def generateImage_call_def generateImage_settle_def getAI_def
        example_env_def js_def)

theorem failure_keeps_history_witness:
  "\<not> blank (prompt_state ((example_state :: nat App_state)\<lparr>images := [example_old_image]\<rparr>)) \<and>
   fst (generateImage example_env (Inl (EndpointError (js ''503'')))
     (config_of ((example_state :: nat App_state)\<lparr>images := [example_old_image]\<rparr>)) (network example_world)) =
     Inl (EndpointError (js ''503'')) \<and>
   images (fst (handleGenerate example_env example_random_id ticking_clock
     (Inl (EndpointError (js ''503''))) ((example_state :: nat App_state)\<lparr>images := [example_old_image]\<rparr>)
     example_world)) = [example_old_image] \<and>
   alerts (snd (handleGenerate example_env example_random_id ticking_clock
     (Inl (EndpointError (js ''503''))) ((example_state :: nat App_state)\<lparr>images := [example_old_image]\<rparr>)
     example_world)) = [js ''Failed to generate image. Please check your API key.'']"
proof -
  let ?s = "(example_state :: nat App_state)\<lparr>images := [example_old_image]\<rparr>"
  let ?e = "EndpointError (js ''503'')"
  let ?out = "handleGenerate example_env example_random_id ticking_clock (Inl ?e) ?s example_world"
  have b: "\<not> blank (prompt_state ?s)"
    using example_state_not_blank by simp
  have g: "fst (generateImage example_env (Inl ?e) (config_of ?s) (network example_world)) = Inl ?e"
    by (rule example_generateImage_fails)
  have "images (fst ?out) = images ?s \<and>
      alerts (snd ?out) = alerts example_world @ [js ''Failed to generate image. Please check your API key.'']"
    using b g failure_keeps_history [where s = ?s and env = example_env
      and reply = "Inl ?e" and w = example_world and e = ?e
      and random_id = example_random_id and Date_now = ticking_clock]
    by blast
  then have "images (fst ?out) = [example_old_image] \<and>
      alerts (snd ?out) = [js ''Failed to generate image. Please check your API key.'']"
    by (simp add: example_world_def)
  with b g show ?thesis
    by blast
qed

subsection \<open>The records of a batch\<close>

text \<open>
  The records of one batch need not share a timestamp: with a clock that advances
  between two readings, the two records of the example get different timestamps.
\<close>

theorem batch_timestamps_counterexample:
  "map timestamp (images (fst (handleGenerate example_env example_random_id ticking_clock
     (Inr example_response) (example_state :: nat App_state) example_world))) =
     [1700000000000, 1700000000001]"
proof -
  let ?k = "\<lparr>closure_prompt = prompt_state (example_state :: nat App_state),
        awaited = fst (generateImage_call example_env (config_of (example_state :: nat App_state)) (network example_world))\<rparr>"
  have f: "generateImage_settle (awaited ?k) (Inr example_response) =
     Inr [js ''data:image/png;base64,AAAA'', js ''data:image/jpeg;base64,BBBB'']"
    using example_call by (simp add: settle_call)
  show ?thesis
    unfolding handleGenerate_nonblank [OF example_state_not_blank] resume_success [OF f]
    by (simp add: new_images_timestamp example_state_def example_world_def ticking_clock_def)
qed

text \<open>
  Claim C9, as amended. All records made from one successful submission carry the prompt
  the handler was created with. The timestamp is read once for each record: the \<open>i\<close>-th
  record of the batch carries the \<open>i\<close>-th reading of the clock taken while the batch is
  built.
\<close>

theorem batch_prompt_and_timestamps:
  "(generateImage_settle (awaited k) reply = Inr results \<longrightarrow>
      map prompt_image (take (length results)
          (images (fst (handleGenerate_resume random_id Date_now k reply s w)))) =
        replicate (length results) (closure_prompt k) \<and>
      map timestamp (take (length results)
          (images (fst (handleGenerate_resume random_id Date_now k reply s w)))) =
        map (\<lambda>i. Date_now (now_calls w + i)) [0..<length results]) \<and>
   (\<not> blank (prompt_state s) \<and>
    fst (generateImage env reply (config_of s) (network w)) = Inr results \<longrightarrow>
      map prompt_image (take (length results)
          (images (fst (handleGenerate env random_id Date_now reply s w)))) =
        replicate (length results) (prompt_state s) \<and>
      map timestamp (take (length results)
          (images (fst (handleGenerate env random_id Date_now reply s w)))) =
        map (\<lambda>i. Date_now (now_calls w + i)) [0..<length results])"
proof -
  have a: "map prompt_image (take (length results)
          (images (fst (handleGenerate_resume r n k' reply s' w')))) =
        replicate (length results) (closure_prompt k') \<and>
      map timestamp (take (length results)
          (images (fst (handleGenerate_resume r n k' reply s' w')))) =
        map (\<lambda>i. n (now_calls w' + i)) [0..<length results]"
    if "generateImage_settle (awaited k') reply = Inr results"
    for r n k' and s' :: "'a App_state" and w'
    using that
    by (simp add: resume_success new_images_length new_images_prompt new_images_timestamp)
  show ?thesis
  proof (intro conjI impI)
    assume "generateImage_settle (awaited k) reply = Inr results"
    from a [OF this]
    show "map prompt_image (take (length results)
          (images (fst (handleGenerate_resume random_id Date_now k reply s w)))) =
        replicate (length results) (closure_prompt k)"
      and "map timestamp (take (length results)
          (images (fst (handleGenerate_resume random_id Date_now k reply s w)))) =
        map (\<lambda>i. Date_now (now_calls w + i)) [0..<length results]"
      by blast+
  next
    assume h: "\<not> blank (prompt_state s) \<and>
      fst (generateImage env reply (config_of s) (network w)) = Inr results"
    then have "generateImage_settle (awaited \<lparr>closure_prompt = prompt_state s,
        awaited = fst (generateImage_call env (config_of s) (network w))\<rparr>) reply = Inr results"
      by (simp add: settle_call)
    from a [OF this] h
    show "map prompt_image (take (length results)
          (images (fst (handleGenerate env random_id Date_now reply s w)))) =
        replicate (length results) (prompt_state s)"
      and "map timestamp (take (length results)
          (images (fst (handleGenerate env random_id Date_now reply s w)))) =
        map (\<lambda>i. Date_now (now_calls w + i)) [0..<length results]"
      by (simp_all add: handleGenerate_nonblank)
  qed
qed

theorem batch_prompt_and_timestamps_witness:
  "\<not> blank (prompt_state (example_state :: nat App_state)) \<and>
   fst (generateImage example_env (Inr example_response)
     (config_of (example_state :: nat App_state)) (network example_world)) =
     Inr [js ''data:image/png;base64,AAAA'', js ''data:image/jpeg;base64,BBBB''] \<and>
   map prompt_image (take 2 (images (fst (handleGenerate example_env example_random_id ticking_clock
     (Inr example_response) (example_state :: nat App_state) example_world)))) =
     [js ''a red bicycle'', js ''a red bicycle''] \<and>
   map timestamp (take 2 (images (fst (handleGenerate example_env example_random_id ticking_clock
     (Inr example_response) (example_state :: nat App_state) example_world)))) =
     [ticking_clock 0, ticking_clock 1]"
proof -
  let ?s = "example_state :: nat App_state"
  let ?R = "[js ''data:image/png;base64,AAAA'', js ''data:image/jpeg;base64,BBBB'']"
  let ?h = "images (fst (handleGenerate example_env example_random_id ticking_clock
     (Inr example_response) ?s example_world))"
  have b: "\<not> blank (prompt_state ?s)"
    by (rule example_state_not_blank)
  have g: "fst (generateImage example_env (Inr example_response) (config_of ?s)
      (network example_world)) = Inr ?R"
    by (rule example_call)
  have l: "length ?R = 2"
    by simp
  have "map prompt_image (take (length ?R) ?h) = replicate (length ?R) (prompt_state ?s) \<and>
      map timestamp (take (length ?R) ?h) =
        map (\<lambda>i. ticking_clock (now_calls example_world + i)) [0..<length ?R]"
    using b g batch_prompt_and_timestamps [where s = ?s and env = example_env
      and reply = "Inr example_response" and w = example_world and results = ?R
      and random_id = example_random_id and Date_now = ticking_clock]
    by blast
  then have "map prompt_image (take 2 ?h) = [js ''a red bicycle'', js ''a red bicycle''] \<and>
      map timestamp (take 2 ?h) = [ticking_clock 0, ticking_clock 1]"
    unfolding l by (simp add: example_state_def example_world_def numeral_2_eq_2)
  with b g show ?thesis
    by blast
qed

subsection \<open>Uploaded files\<close>

text \<open>
  With four files present and two selected, the list keeps the four and the first of
  the new ones; the most recent five would be the last five of the six.
\<close>

theorem handleFileUpload_counterexample:
  "uploadedFiles (handleFileUpload (Some [5, 6])
      ((example_state :: nat App_state)\<lparr>uploadedFiles := [1, 2, 3, 4]\<rparr>)) = [1, 2, 3, 4, 5] \<and>
   most_recent 5 ([1, 2, 3, 4] @ [5, 6 :: nat]) = [2, 3, 4, 5, 6]"
  by (simp add: handleFileUpload_def most_recent_def)

text \<open>
  Claim C8, as amended. The upload keeps the first five entries of the existing list
  followed by the newly selected files, so at most five: the existing entries come first,
  in their order, and of the new batch only as many of its first files as still fit.
  Without a file list the state is unchanged.
\<close>

theorem handleFileUpload_first_five:
  "uploadedFiles (handleFileUpload (Some fs) s) = take 5 (uploadedFiles s @ fs) \<and>
   uploadedFiles (handleFileUpload (Some fs) s) =
     take 5 (uploadedFiles s) @ take (5 - length (uploadedFiles s)) fs \<and>
   length (uploadedFiles (handleFileUpload (Some fs) s)) \<le> 5 \<and>
   handleFileUpload None s = s"
  by (simp add: handleFileUpload_def)

subsection \<open>Invocations while a submission is in flight\<close>

text \<open>
  The first invocation leaves the example state in flight with one request issued; a
  second invocation of the handler on that state issues the request a second time.
\<close>

lemma example_first_call:
  "handleGenerate_call example_env (example_state :: nat App_state) example_world =
     (example_state\<lparr>isGenerating := True\<rparr>,
      example_world\<lparr>network := [request_of example_config]\<rparr>,
      Some \<lparr>closure_prompt = js ''a red bicycle'',
        awaited = Awaiting \<lparr>apiKey = js ''secret''\<rparr> (request_of example_config)\<rparr>)"
  using example_state_not_blank [where ?'a = nat]
  by (simp add: handleGenerate_call_def trim_empty_iff generateImage_call_def getAI_def
        example_env_def js_def config_of_def example_state_def example_config_def
        example_world_def)

theorem second_invocation_counterexample:
  "handleGenerate_call example_env (example_state :: nat App_state) example_world =
     (example_state\<lparr>isGenerating := True\<rparr>,
      example_world\<lparr>network := [request_of example_config]\<rparr>,
      Some \<lparr>closure_prompt = js ''a red bicycle'',
        awaited = Awaiting \<lparr>apiKey = js ''secret''\<rparr> (request_of example_config)\<rparr>) \<and>
   isGenerating ((example_state :: nat App_state)\<lparr>isGenerating := True\<rparr>) \<and>
   network (fst (snd (handleGenerate_call example_env
       ((example_state :: nat App_state)\<lparr>isGenerating := True\<rparr>)
       (example_world\<lparr>network := [request_of example_config]\<rparr>)))) =
     [request_of example_config, request_of example_config]"
proof -
  have b: "\<not> blank (prompt_state ((example_state :: nat App_state)\<lparr>isGenerating := True\<rparr>))"
    using example_state_not_blank by simp
  have "network (fst (snd (handleGenerate_call example_env
       ((example_state :: nat App_state)\<lparr>isGenerating := True\<rparr>)
       (example_world\<lparr>network := [request_of example_config]\<rparr>)))) =
     [request_of example_config, request_of example_config]"
    using b
    by (simp add: handleGenerate_call_def trim_empty_iff generateImage_call_def getAI_def
        example_env_def js_def config_of_def example_state_def example_config_def
        example_world_def)
  with example_first_call show ?thesis
    by simp
qed

lemma handleGenerate_call_rendered_same:
  "handleGenerate_call_rendered env s s w = handleGenerate_call env s w"
  by (simp add: handleGenerate_call_rendered_def handleGenerate_call_def)

text \<open>
  Claim C5, as amended. The handler does not read \<open>isGenerating\<close>: invoked while a
  submission is in flight, with a prompt that is not blank and the key set, it issues one
  more request. The only guard is the \<open>disabled\<close> attribute of the rendered button:
  a click on a button rendered with \<open>isGenerating\<close> true changes nothing, issues no
  request and leaves nothing waiting; a click on a button rendered before the flag was
  set (with a prompt that is not blank, and the key set) issues one more request, also when
  the flag is set in the state by then.
\<close>

theorem button_disabled_in_flight:
  "(isGenerating r \<longrightarrow> generate_button_click env r s w = (s, w, None)) \<and>
   (\<not> isGenerating r \<and> \<not> blank (prompt_state r) \<and> getAI env = Inr ai \<longrightarrow>
      network (fst (snd (generate_button_click env r s w))) =
        network w @ [request_of (config_of r)]) \<and>
   (\<not> blank (prompt_state s) \<and> getAI env = Inr ai \<longrightarrow>
      network (fst (snd (handleGenerate_call env s w))) =
        network w @ [request_of (config_of s)])"
  by (simp add: generate_button_click_def handleGenerate_call_rendered_def
        handleGenerate_call_def generateImage_call_def trim_empty_iff)

theorem button_disabled_in_flight_witness:
  "isGenerating ((example_state :: nat App_state)\<lparr>isGenerating := True\<rparr>) \<and>
   generate_button_click example_env ((example_state :: nat App_state)\<lparr>isGenerating := True\<rparr>)
       ((example_state :: nat App_state)\<lparr>isGenerating := True\<rparr>)
       (example_world\<lparr>network := [request_of example_config]\<rparr>) =
     (example_state\<lparr>isGenerating := True\<rparr>,
      example_world\<lparr>network := [request_of example_config]\<rparr>, None) \<and>
   \<not> isGenerating (example_state :: nat App_state) \<and>
   \<not> blank (prompt_state (example_state :: nat App_state)) \<and>
   getAI example_env = Inr \<lparr>apiKey = js ''secret''\<rparr> \<and>
   network (fst (snd (generate_button_click example_env (example_state :: nat App_state)
       ((example_state :: nat App_state)\<lparr>isGenerating := True\<rparr>)
       (example_world\<lparr>network := [request_of example_config]\<rparr>)))) =
     [request_of example_config, request_of example_config] \<and>
   network (fst (snd (handleGenerate_call example_env
       ((example_state :: nat App_state)\<lparr>isGenerating := True\<rparr>)
       (example_world\<lparr>network := [request_of example_config]\<rparr>)))) =
     [request_of example_config, request_of example_config]"
proof -
  let ?r = "example_state :: nat App_state"
  let ?s = "(example_state :: nat App_state)\<lparr>isGenerating := True\<rparr>"
  let ?w = "example_world\<lparr>network := [request_of example_config]\<rparr>"
  let ?ai = "\<lparr>apiKey = js ''secret''\<rparr>"
  have i: "isGenerating ?s"
    by simp
  have n: "\<not> isGenerating ?r"
    by (simp add: example_state_def)
  have b: "\<not> blank (prompt_state ?r)"
    by (rule example_state_not_blank)
  have b': "\<not> blank (prompt_state ?s)"
    using b by simp
  have k: "getAI example_env = Inr ?ai"
    by (simp add: getAI_def example_env_def js_def)
  have c: "config_of ?r = example_config" "config_of ?s = example_config"
    by (simp_all add: config_of_def example_state_def example_config_def)
  have x: "generate_button_click example_env ?s ?s ?w = (?s, ?w, None)"
    using i button_disabled_in_flight [where r = ?s and s = ?s and env = example_env and w = ?w]
    by blast
  have y: "network (fst (snd (generate_button_click example_env ?r ?s ?w))) =
      network ?w @ [request_of (config_of ?r)]"
    using n b k button_disabled_in_flight [where r = ?r and s = ?s and env = example_env
      and w = ?w and ai = ?ai]
    by blast
  have z: "network (fst (snd (handleGenerate_call example_env ?s ?w))) =
      network ?w @ [request_of (config_of ?s)]"
    using b' k button_disabled_in_flight [where r = ?r and s = ?s and env = example_env
      and w = ?w and ai = ?ai]
    by blast
  from i x n b k y z show ?thesis
    unfolding c by simp
qed

end
